theory Spec2Isabelle
  imports Complex_Main "HOL-Library.AList"
begin

section \<open>Python values\<close>

text \<open>
  The backend passes JSON-like dictionaries between its components. A Python value is a
  \<open>pyval\<close>; a dictionary is an association list in insertion order, read with
  \<open>map_of\<close> (\<open>d.get(k)\<close>) and written with \<open>AList.update\<close> (\<open>d[k] = v\<close>).
  Python floats are idealised as real numbers. Strings are byte strings.
\<close>

datatype pyval =
    PyNone
  | PyBool bool
  | PyInt int
  | PyFloat real
  | PyStr string
  | PyList "pyval list"
  | PyDict "(string \<times> pyval) list"

type_synonym pydict = "(string \<times> pyval) list"

datatype py_error = KeyError | TypeError | AttributeError | IndexError | IOError

text \<open>Truth value of a Python object, as tested by \<open>if x:\<close> and by \<open>and\<close>.\<close>

fun truthy :: "pyval \<Rightarrow> bool" where
  "truthy PyNone = False"
| "truthy (PyBool b) = b"
| "truthy (PyInt i) = (i \<noteq> 0)"
| "truthy (PyFloat r) = (r \<noteq> 0)"
| "truthy (PyStr s) = (s \<noteq> [])"
| "truthy (PyList xs) = (xs \<noteq> [])"
| "truthy (PyDict d) = (d \<noteq> [])"

text \<open>\<open>d.get(k, default)\<close>.\<close>

definition dict_get :: "pydict \<Rightarrow> string \<Rightarrow> pyval \<Rightarrow> pyval" where
  "dict_get d k dflt = (case map_of d k of None \<Rightarrow> dflt | Some v \<Rightarrow> v)"

text \<open>
  \<open>str.lower()\<close>: the letters A to Z are mapped to a to z, every other byte is kept.
  (Python also folds non-ASCII letters; none of them folds to a letter that occurs in the
  labels or file extensions compared below.)
\<close>

definition upper_letters :: string where
  "upper_letters = ''ABCDEFGHIJKLMNOPQRSTUVWXYZ''"

definition lower_letters :: string where
  "lower_letters = ''abcdefghijklmnopqrstuvwxyz''"

definition lower_char :: "char \<Rightarrow> char" where
  "lower_char c = (case map_of (zip upper_letters lower_letters) c of None \<Rightarrow> c | Some d \<Rightarrow> d)"

definition lower :: "string \<Rightarrow> string" where
  "lower s = map lower_char s"

section \<open>Random draws and rounding\<close>

text \<open>
  The two draws a mock result consumes: the index draw behind \<open>random.choice\<close> and the
  53-bit integer behind \<open>random.random()\<close>, which is that integer divided by \<open>2 ^ 53\<close>.
\<close>

record rng =
  choice_draw :: nat
  unit_draw :: nat

definition random_unit :: "rng \<Rightarrow> real" where
  "random_unit g = real (unit_draw g mod 2 ^ 53) / 2 ^ 53"

text \<open>\<open>random.uniform(a, b)\<close> is \<open>a + (b - a) * random()\<close>.\<close>

definition uniform :: "real \<Rightarrow> real \<Rightarrow> rng \<Rightarrow> real" where
  "uniform a b g = a + (b - a) * random_unit g"

text \<open>\<open>round(x, n)\<close> on a float: to the nearest multiple of \<open>10 ^ - n\<close>, ties to even.\<close>

definition round_half_even :: "real \<Rightarrow> int" where
  "round_half_even x =
     (let f = \<lfloor>x\<rfloor>; d = x - of_int f
      in if d < 1 / 2 then f else if 1 / 2 < d then f + 1 else if even f then f else f + 1)"

definition py_round :: "nat \<Rightarrow> real \<Rightarrow> real" where
  "py_round n x = of_int (round_half_even (x * 10 ^ n)) / 10 ^ n"

section \<open>core/ml\_client.py: result normalization\<close>

text \<open>The label table of \<open>_format_local_ml_result\<close>, with all six keys of the source.\<close>

definition risk_mapping :: "(string \<times> string) list" where
  "risk_mapping =
     [(''normal'', ''low''), (''Normal'', ''low''),
      (''abnormal'', ''high''), (''Abnormal'', ''high''),
      (''murmur'', ''medium''), (''Murmur'', ''medium'')]"

text \<open>\<open>risk_mapping.get(prediction.lower(), 'medium')\<close>\<close>

definition risk_level_of :: "string \<Rightarrow> string" where
  "risk_level_of prediction =
     (case map_of risk_mapping (lower prediction) of None \<Rightarrow> ''medium'' | Some t \<Rightarrow> t)"

text \<open>The label table of \<open>_mock_analysis\<close> and its lookup, which does not lower-case.\<close>

definition mock_risk_mapping :: "(string \<times> string) list" where
  "mock_risk_mapping = [(''normal'', ''low''), (''abnormal'', ''high''), (''murmur'', ''medium'')]"

definition mock_risk_level_of :: "string \<Rightarrow> string" where
  "mock_risk_level_of prediction =
     (case map_of mock_risk_mapping prediction of None \<Rightarrow> ''medium'' | Some t \<Rightarrow> t)"

text \<open>
  The mapping as the specification words it: the label is compared without regard to case;
  normal is low, abnormal is high, murmur is medium, anything else is medium.
\<close>

definition spec_tier :: "string \<Rightarrow> string" where
  "spec_tier label =
     (if lower label = ''normal'' then ''low''
      else if lower label = ''abnormal'' then ''high''
      else if lower label = ''murmur'' then ''medium''
      else ''medium'')"

definition recommendations :: "(string \<times> string) list" where
  "recommendations =
     [(''high'', ''Urgent consultation with cardiologist recommended. Avoid strenuous activity and seek immediate medical attention if symptoms worsen.''),
      (''medium'', ''Schedule a follow-up with healthcare provider. Monitor for symptoms like chest pain, shortness of breath, or fatigue.''),
      (''low'', ''Regular check-up advised. Maintain healthy lifestyle with balanced diet and regular exercise.'')]"

definition mock_recommendations :: "(string \<times> string) list" where
  "mock_recommendations =
     [(''high'', ''Urgent consultation with cardiologist recommended.''),
      (''medium'', ''Follow-up with healthcare provider advised.''),
      (''low'', ''Regular check-up advised.'')]"

text \<open>\<open>table.get(key, '')\<close> on a table of strings.\<close>

definition str_get :: "(string \<times> string) list \<Rightarrow> string \<Rightarrow> string" where
  "str_get table k = (case map_of table k of None \<Rightarrow> [] | Some v \<Rightarrow> v)"

section \<open>Calls to the outside world\<close>

text \<open>
  Every call that leaves the process is recorded, in order, so that a property can say
  which collaborator was reached and how often.
\<close>

datatype event =
    OpenAudio "string option"
  | HttpPost string
  | LocalPredict "string option"
  | MockSleep
  | SaveUpload string
  | DbInsert pydict
  | SmsAlert pyval pyval

section \<open>core/ml\_client.py: the mock variant\<close>

definition mock_predictions :: "string list" where
  "mock_predictions = [''normal'', ''abnormal'', ''murmur'']"

text \<open>
  \<open>_mock_analysis\<close>: sleeps, draws a label from the three-element list (the index is in
  range, the list being non-empty) and a confidence; the patient context is not read.
\<close>

definition mock_analysis :: "rng \<Rightarrow> pydict option \<Rightarrow> pydict \<times> event list" where
  "mock_analysis g patient_context =
     (let prediction = mock_predictions ! (choice_draw g mod length mock_predictions);
          confidence = py_round 3 (uniform (6 / 10) (95 / 100) g);
          risk_level = mock_risk_level_of prediction
      in ([(''prediction'', PyStr prediction),
           (''confidence'', PyFloat confidence),
           (''risk_level'', PyStr risk_level),
           (''recommendation'', PyStr (str_get mock_recommendations risk_level)),
           (''ml_source'', PyStr ''mock''),
           (''note'', PyStr ''Using mock analysis - ML model not available'')],
          [MockSleep]))"

section \<open>ml\_model/model\_loader.py\<close>

text \<open>
  A loaded \<open>HeartSoundModel\<close>: whether \<open>self.model\<close> is a network or \<open>None\<close>, and
  \<open>self.model_info\<close>.
\<close>

record heart_sound_model =
  model_present :: bool
  model_info :: pydict

definition default_classes :: pyval where
  "default_classes = PyList [PyStr ''normal'', PyStr ''abnormal'']"

text \<open>\<open>len(x)\<close> and \<open>x[i]\<close> for a non-negative index.\<close>

fun py_len :: "pyval \<Rightarrow> py_error + nat" where
  "py_len (PyStr s) = Inr (length s)"
| "py_len (PyList xs) = Inr (length xs)"
| "py_len (PyDict d) = Inr (length d)"
| "py_len _ = Inl TypeError"

fun py_index :: "pyval \<Rightarrow> nat \<Rightarrow> py_error + pyval" where
  "py_index (PyStr s) i = (if i < length s then Inr (PyStr [s ! i]) else Inl IndexError)"
| "py_index (PyList xs) i = (if i < length xs then Inr (xs ! i) else Inl IndexError)"
| "py_index (PyDict d) i = Inl KeyError"
| "py_index _ i = Inl TypeError"

text \<open>\<open>random.choice(seq)\<close>: IndexError on an empty sequence, else \<open>seq[randbelow(len(seq))]\<close>.\<close>

definition random_choice :: "rng \<Rightarrow> pyval \<Rightarrow> py_error + pyval" where
  "random_choice g seq =
     (case py_len seq of
        Inl e \<Rightarrow> Inl e
      | Inr n \<Rightarrow> if n = 0 then Inl IndexError else py_index seq (choice_draw g mod n))"

text \<open>\<open>_mock_prediction\<close>, the fallback inside the model loader.\<close>

definition mock_prediction :: "heart_sound_model \<Rightarrow> rng \<Rightarrow> py_error + pydict" where
  "mock_prediction m g =
     (let class_names = dict_get (model_info m) ''classes'' default_classes
      in case random_choice g class_names of
           Inl e \<Rightarrow> Inl e
         | Inr prediction \<Rightarrow>
             Inr [(''prediction'', prediction),
                  (''confidence'', PyFloat (py_round 3 (uniform (7 / 10) (95 / 100) g))),
                  (''probabilities'',
                     PyList (if py_len class_names = Inr 2
                             then [PyFloat (5 / 10), PyFloat (5 / 10)]
                             else [PyFloat (3 / 10), PyFloat (7 / 10)])),
                  (''class_names'', class_names),
                  (''model_source'', PyStr ''mock_fallback''),
                  (''note'', PyStr ''Using mock prediction due to error'')])"

text \<open>
  What the network answers for the generated features: an exception, or the probability
  vector \<open>predictions[0]\<close>.
\<close>

datatype inference = InferenceRaised | Predictions "real list"

text \<open>\<open>np.argmax\<close>: the first position of the largest entry (of a non-empty vector).\<close>

definition argmax :: "real list \<Rightarrow> nat" where
  "argmax ps = length (takeWhile (\<lambda>x. x \<noteq> fold max ps (hd ps)) ps)"

text \<open>
  \<open>predict_from_audio\<close>: any exception in the \<open>try\<close> block (the network raising, an empty
  vector, class names that cannot be measured or indexed) leads to \<open>_mock_prediction\<close>,
  whose own exception is not caught.
\<close>

definition predict_from_audio ::
  "heart_sound_model \<Rightarrow> inference \<Rightarrow> rng \<Rightarrow> string option \<Rightarrow> py_error + pydict" where
  "predict_from_audio m outcome g audio_path =
     (if \<not> model_present m then mock_prediction m g
      else case outcome of
        InferenceRaised \<Rightarrow> mock_prediction m g
      | Predictions ps \<Rightarrow>
          if ps = [] then mock_prediction m g
          else
            (let class_idx = argmax ps;
                 confidence = ps ! class_idx;
                 class_names = dict_get (model_info m) ''classes'' default_classes
             in (case py_len class_names of
                   Inl e \<Rightarrow> mock_prediction m g
                 | Inr n \<Rightarrow>
                     (case (if class_idx < n then py_index class_names class_idx
                            else Inr (PyStr ''unknown'')) of
                        Inl e \<Rightarrow> mock_prediction m g
                      | Inr prediction \<Rightarrow>
                          Inr [(''prediction'', prediction),
                               (''confidence'', PyFloat (py_round 4 confidence)),
                               (''probabilities'', PyList (map PyFloat ps)),
                               (''class_names'', class_names),
                               (''model_source'', PyStr ''real_cnn_model''),
                               (''model_note'', dict_get (model_info m) ''note'' (PyStr []))]))))"

section \<open>core/ml\_client.py: the client\<close>

record ml_client =
  use_real_ml :: bool
  ml_api_url :: string
  ml_api_key :: string
  local_model :: "heart_sound_model option"

text \<open>
  \<open>MLClient.__init__\<close>: the three environment variables (\<open>None\<close> when unset), whether the
  model loader could be imported, and what constructing \<open>HeartSoundModel()\<close> gives
  (\<open>None\<close> when it raises).
\<close>

definition getenv :: "string option \<Rightarrow> string \<Rightarrow> string" where
  "getenv var dflt = (case var of None \<Rightarrow> dflt | Some v \<Rightarrow> v)"

definition ml_client_init ::
  "string option \<Rightarrow> string option \<Rightarrow> string option \<Rightarrow> bool \<Rightarrow> heart_sound_model option
     \<Rightarrow> ml_client" where
  "ml_client_init USE_REAL_ML ML_API_URL ML_API_KEY HAS_LOCAL_MODEL constructed =
     (let use = (lower (getenv USE_REAL_ML ''false'') = ''true'')
      in \<lparr>use_real_ml = use,
          ml_api_url = getenv ML_API_URL [],
          ml_api_key = getenv ML_API_KEY [],
          local_model = (if \<not> use \<and> HAS_LOCAL_MODEL then constructed else None)\<rparr>)"

text \<open>\<open>age > 50\<close> and \<open>round(confidence, 4)\<close> on a Python value.\<close>

fun py_gt :: "pyval \<Rightarrow> int \<Rightarrow> py_error + bool" where
  "py_gt (PyInt i) n = Inr (n < i)"
| "py_gt (PyFloat r) n = Inr (of_int n < r)"
| "py_gt (PyBool b) n = Inr (n < (if b then 1 else 0))"
| "py_gt _ n = Inl TypeError"

fun py_round_val :: "nat \<Rightarrow> pyval \<Rightarrow> py_error + pyval" where
  "py_round_val n (PyFloat r) = Inr (PyFloat (py_round n r))"
| "py_round_val n (PyInt i) = Inr (PyInt i)"
| "py_round_val n (PyBool b) = Inr (PyInt (if b then 1 else 0))"
| "py_round_val n _ = Inl TypeError"

definition over_50_note :: string where
  "over_50_note = ''Patient is over 50, increased cardiovascular risk factors.''"

text \<open>The block "Add patient context if available" of \<open>_format_local_ml_result\<close>.\<close>

definition analysis_note_of :: "pydict option \<Rightarrow> string \<Rightarrow> py_error + string" where
  "analysis_note_of patient_context risk_level =
     (case patient_context of
        None \<Rightarrow> Inr []
      | Some ctx \<Rightarrow>
          if ctx = [] then Inr []
          else (case py_gt (dict_get ctx ''age'' (PyInt 0)) 50 of
                  Inl e \<Rightarrow> Inl e
                | Inr over \<Rightarrow> Inr (if over \<and> risk_level \<noteq> ''low'' then over_50_note else [])))"

definition format_local_ml_result ::
  "ml_client \<Rightarrow> pydict \<Rightarrow> pydict option \<Rightarrow> py_error + pydict" where
  "format_local_ml_result c ml_result patient_context =
     (case map_of ml_result ''prediction'' of
        None \<Rightarrow> Inl KeyError
      | Some prediction \<Rightarrow>
     (case map_of ml_result ''confidence'' of
        None \<Rightarrow> Inl KeyError
      | Some confidence \<Rightarrow>
     (case prediction of
        PyStr label \<Rightarrow>
          (let risk_level = risk_level_of label
           in case analysis_note_of patient_context risk_level of
                Inl e \<Rightarrow> Inl e
              | Inr analysis_note \<Rightarrow>
             (case py_round_val 4 confidence of
                Inl e \<Rightarrow> Inl e
              | Inr rounded \<Rightarrow>
                  Inr [(''prediction'', prediction),
                       (''confidence'', rounded),
                       (''risk_level'', PyStr risk_level),
                       (''recommendation'', PyStr (str_get recommendations risk_level)),
                       (''analysis_note'', PyStr analysis_note),
                       (''probabilities'', dict_get ml_result ''probabilities'' (PyList [])),
                       (''class_names'', dict_get ml_result ''class_names'' default_classes),
                       (''ml_source'', PyStr ''local_cnn_model''),
                       (''model_info'',
                          PyDict (case local_model c of None \<Rightarrow> [] | Some m \<Rightarrow> model_info m))]))
      | _ \<Rightarrow> Inl AttributeError)))"

text \<open>
  What one request meets outside the client: whether the audio file opens, what the HTTP
  call does (a timeout, another transport exception, or a status with the body parsed as
  JSON, \<open>None\<close> when it does not parse), what the network predicts, and the random
  draws. Opening the path \<open>None\<close> always raises.
\<close>

datatype http_outcome = RequestTimeout | TransportError | HttpResponse int "pyval option"

record ml_env =
  audio_opens :: bool
  http :: http_outcome
  inference_result :: inference
  draws :: rng

text \<open>\<open>_call_external_ml_api\<close>: every exception of the \<open>try\<close> block ends in the mock.\<close>

definition mock_fallback :: "ml_env \<Rightarrow> pydict option \<Rightarrow> event list \<Rightarrow> pyval \<times> event list" where
  "mock_fallback env patient_context before =
     (let (r, evs) = mock_analysis (draws env) patient_context in (PyDict r, before @ evs))"

definition call_external_ml_api ::
  "ml_client \<Rightarrow> ml_env \<Rightarrow> string option \<Rightarrow> pydict option \<Rightarrow> pyval \<times> event list" where
  "call_external_ml_api c env audio_path patient_context =
     (if audio_path = None \<or> \<not> audio_opens env then
        mock_fallback env patient_context [OpenAudio audio_path]
      else case http env of
        RequestTimeout \<Rightarrow>
          mock_fallback env patient_context [OpenAudio audio_path, HttpPost (ml_api_url c)]
      | TransportError \<Rightarrow>
          mock_fallback env patient_context [OpenAudio audio_path, HttpPost (ml_api_url c)]
      | HttpResponse status body \<Rightarrow>
          if status = 200 then
            (case body of
               Some v \<Rightarrow> (v, [OpenAudio audio_path, HttpPost (ml_api_url c)])
             | None \<Rightarrow>
                 mock_fallback env patient_context [OpenAudio audio_path, HttpPost (ml_api_url c)])
          else mock_fallback env patient_context [OpenAudio audio_path, HttpPost (ml_api_url c)])"

definition analyze_heart_sound ::
  "ml_client \<Rightarrow> ml_env \<Rightarrow> string option \<Rightarrow> pydict option \<Rightarrow> (py_error + pyval) \<times> event list" where
  "analyze_heart_sound c env audio_path patient_context =
     (if use_real_ml c \<and> ml_api_url c \<noteq> [] then
        (let (v, evs) = call_external_ml_api c env audio_path patient_context in (Inr v, evs))
      else case local_model c of
        Some m \<Rightarrow>
          (case predict_from_audio m (inference_result env) (draws env) audio_path of
             Inl e \<Rightarrow> (Inl e, [LocalPredict audio_path])
           | Inr result \<Rightarrow>
               if result \<noteq> [] then
                 (case format_local_ml_result c result patient_context of
                    Inl e \<Rightarrow> (Inl e, [LocalPredict audio_path])
                  | Inr r \<Rightarrow> (Inr (PyDict r), [LocalPredict audio_path]))
               else
                 (let (r, evs) = mock_analysis (draws env) patient_context
                  in (Inr (PyDict r), LocalPredict audio_path # evs)))
      | None \<Rightarrow>
          (let (r, evs) = mock_analysis (draws env) patient_context in (Inr (PyDict r), evs)))"

section \<open>app.py and core/database.py: the analyze endpoint\<close>

definition ALLOWED_EXTENSIONS :: "string list" where
  "ALLOWED_EXTENSIONS = [''wav'', ''mp3'', ''m4a'']"

text \<open>\<open>filename.rsplit('.', 1)[1]\<close> for a name that contains a dot: what follows the last dot.\<close>

definition rsplit_last :: "string \<Rightarrow> string" where
  "rsplit_last s = rev (takeWhile (\<lambda>c. c \<noteq> CHR ''.'') (rev s))"

definition allowed_file :: "string \<Rightarrow> bool" where
  "allowed_file filename =
     (CHR ''.'' \<in> set filename \<and> lower (rsplit_last filename) \<in> set ALLOWED_EXTENSIONS)"

text \<open>
  A request to \<open>/analyze\<close>: the filename of the uploaded part named \<open>audio\<close> (\<open>None\<close>
  when there is no such part) and the form fields.
\<close>

record analyze_request =
  audio_filename :: "string option"
  form :: "(string \<times> string) list"

text \<open>What the database does with an insert: an exception, or the rows of \<open>response.data\<close>
  (empty when the attribute is missing or falsy).\<close>

datatype insert_outcome = InsertRaised string | InsertReturned "pydict list"

text \<open>
  What the endpoint meets outside itself, beyond the classifier's environment: the library
  functions \<open>secure_filename\<close> and \<open>int\<close>, the generated \<open>uuid4().hex\<close>, whether
  \<open>audio_file.save\<close> succeeds, the clock, the database and the dictionary returned by
  \<open>send_sms_alert\<close>. (core/sms\_service.py defines no function of that name, so the
  import in app.py fails and the endpoint calls the stub defined there, which returns a
  dictionary and does not raise.)
\<close>

record app_env =
  ml :: ml_env
  secure_filename :: "string \<Rightarrow> string"
  uuid_hex :: string
  int_of_str :: "string \<Rightarrow> int option"
  save_ok :: bool
  now_iso :: string
  supabase_connected :: bool
  insert_result :: insert_outcome
  sms_result :: pydict

text \<open>\<open>request.form.get(k, '')\<close> and \<open>request.form.get(k, type=int)\<close>.\<close>

definition form_get :: "(string \<times> string) list \<Rightarrow> string \<Rightarrow> pyval" where
  "form_get submitted k = (case map_of submitted k of None \<Rightarrow> PyStr [] | Some v \<Rightarrow> PyStr v)"

definition form_get_int :: "app_env \<Rightarrow> (string \<times> string) list \<Rightarrow> string \<Rightarrow> pyval" where
  "form_get_int env submitted k =
     (case map_of submitted k of
        None \<Rightarrow> PyNone
      | Some v \<Rightarrow> (case int_of_str env v of None \<Rightarrow> PyNone | Some i \<Rightarrow> PyInt i))"

text \<open>The block "Create patient context" of the endpoint.\<close>

definition patient_context_of :: "app_env \<Rightarrow> analyze_request \<Rightarrow> pydict" where
  "patient_context_of env req =
     [(''patient_id'', form_get (form req) ''patient_id''),
      (''name'', form_get (form req) ''patient_name''),
      (''age'', form_get_int env (form req) ''age''),
      (''gender'', form_get (form req) ''gender''),
      (''doctor_id'', form_get (form req) ''doctor_id''),
      (''symptoms'', form_get (form req) ''symptoms'')]"

text \<open>The block "Prepare screening result for database"; \<open>d.get(k)\<close> is \<open>None\<close> when absent.\<close>

definition screening_data_of ::
  "app_env \<Rightarrow> analyze_request \<Rightarrow> string \<Rightarrow> pydict \<Rightarrow> pydict" where
  "screening_data_of env req unique_filename ml_result =
     [(''patient_id'', form_get (form req) ''patient_id''),
      (''patient_name'', form_get (form req) ''patient_name''),
      (''age'', form_get_int env (form req) ''age''),
      (''gender'', form_get (form req) ''gender''),
      (''doctor_id'', form_get (form req) ''doctor_id''),
      (''audio_filename'', PyStr unique_filename),
      (''prediction'', dict_get ml_result ''prediction'' PyNone),
      (''confidence'', dict_get ml_result ''confidence'' PyNone),
      (''risk_level'', dict_get ml_result ''risk_level'' PyNone),
      (''recommendation'', dict_get ml_result ''recommendation'' PyNone),
      (''ml_source'', dict_get ml_result ''ml_source'' PyNone),
      (''symptoms'', form_get (form req) ''symptoms''),
      (''created_at'', PyStr (now_iso env))]"

text \<open>\<open>save_screening_result\<close> of core/database.py.\<close>

definition save_screening_result :: "app_env \<Rightarrow> pydict \<Rightarrow> pydict \<times> event list" where
  "save_screening_result env screening_data =
     (if \<not> supabase_connected env then
        ([(''success'', PyBool True), (''id'', PyStr ''mock_id''),
          (''note'', PyStr ''Mock save - Supabase not connected'')], [])
      else
        (let row =
               [(''patient_id'', dict_get screening_data ''patient_id'' (PyStr [])),
                (''patient_name'', dict_get screening_data ''patient_name'' (PyStr [])),
                (''patient_age'', dict_get screening_data ''age'' PyNone),
                (''recording_url'', dict_get screening_data ''audio_filename'' (PyStr [])),
                (''status'', dict_get screening_data ''prediction'' (PyStr [])),
                (''confidence'', dict_get screening_data ''confidence'' PyNone),
                (''risk_level'', dict_get screening_data ''risk_level'' (PyStr [])),
                (''created_at'', dict_get screening_data ''created_at'' (PyStr (now_iso env)))]
         in (case insert_result env of
               InsertRaised msg \<Rightarrow>
                 ([(''success'', PyBool False), (''error'', PyStr msg)], [DbInsert row])
             | InsertReturned rows \<Rightarrow>
                 (case rows of
                    [] \<Rightarrow>
                      ([(''success'', PyBool False), (''error'', PyStr ''Database insert failed'')],
                       [DbInsert row])
                  | first # rest \<Rightarrow>
                      ([(''success'', PyBool True), (''id'', dict_get first ''id'' PyNone),
                        (''message'', PyStr ''Screening saved successfully'')],
                       [DbInsert row])))))"

text \<open>
  The end of the endpoint, from "Send SMS alert if high risk" to the returned dictionary.
  The alert event carries the phone and the recommendation put into the message.
\<close>

definition alert_and_respond ::
  "app_env \<Rightarrow> pydict \<Rightarrow> pydict \<Rightarrow> pydict \<Rightarrow> string \<Rightarrow> pydict \<times> event list" where
  "alert_and_respond env ml_result patient_context db_result unique_filename =
     (let (ml_result1, evs) =
            (if map_of ml_result ''risk_level'' = Some (PyStr ''high'')
                \<and> truthy (dict_get patient_context ''phone'' PyNone)
             then
               (AList.update ''sms_sent'' (dict_get (sms_result env) ''success'' (PyBool False))
                  ml_result,
                [SmsAlert (dict_get patient_context ''phone'' PyNone)
                   (dict_get ml_result ''recommendation'' (PyStr []))])
             else (ml_result, []));
          ml_result2 = AList.update ''screening_id'' (dict_get db_result ''id'' (PyStr [])) ml_result1;
          ml_result3 = AList.update ''audio_file'' (PyStr unique_filename) ml_result2
      in (ml_result3, evs))"

datatype http_response = Ok200 pyval | BadRequest400 string | ServerError500 py_error

text \<open>
  The block "Generate unique filename": the sanitised name behind the generated hexadecimal
  identifier, and its path in the upload folder.
\<close>

definition unique_filename_of :: "app_env \<Rightarrow> string \<Rightarrow> string" where
  "unique_filename_of env fname = uuid_hex env @ ''_'' @ secure_filename env fname"

definition audio_path_of :: "app_env \<Rightarrow> string \<Rightarrow> string" where
  "audio_path_of env fname = ''uploads/'' @ unique_filename_of env fname"

text \<open>
  The handler of \<open>/analyze\<close>. An exception anywhere in its body is caught and answered
  with status 500; a classifier result that is not a dictionary has no \<open>get\<close>.
\<close>

definition analyze_endpoint ::
  "ml_client \<Rightarrow> app_env \<Rightarrow> analyze_request \<Rightarrow> http_response \<times> event list" where
  "analyze_endpoint c env req =
     (case audio_filename req of
        None \<Rightarrow> (BadRequest400 ''No audio file provided'', [])
      | Some fname \<Rightarrow>
          if fname = [] then (BadRequest400 ''No selected file'', [])
          else if \<not> allowed_file fname then
            (BadRequest400 ''File type not allowed. Use WAV, MP3, or M4A'', [])
          else
            (let unique_filename = unique_filename_of env fname;
                 audio_path = audio_path_of env fname
             in if \<not> save_ok env then (ServerError500 IOError, [SaveUpload audio_path])
                else
                  (let patient_context = patient_context_of env req;
                       (res, evs1) =
                         analyze_heart_sound c (ml env) (Some audio_path) (Some patient_context)
                   in (case res of
                         Inl e \<Rightarrow> (ServerError500 e, SaveUpload audio_path # evs1)
                       | Inr (PyDict ml_result) \<Rightarrow>
                           (let screening_data = screening_data_of env req unique_filename ml_result;
                                (db_result, evs2) = save_screening_result env screening_data;
                                (response, evs3) =
                                  alert_and_respond env ml_result patient_context db_result
                                    unique_filename
                            in (Ok200 (PyDict response), SaveUpload audio_path # evs1 @ evs2 @ evs3))
                       | Inr _ \<Rightarrow> (ServerError500 AttributeError, SaveUpload audio_path # evs1)))))"

text \<open>
  "The patient context's age is greater than 50", as the specification words it: there is
  a context, it has an age, and that age is a number above 50.
\<close>

definition spec_age_over_50 :: "pydict option \<Rightarrow> bool" where
  "spec_age_over_50 patient_context =
     (case patient_context of
        None \<Rightarrow> False
      | Some ctx \<Rightarrow>
          (case map_of ctx ''age'' of
             Some (PyInt i) \<Rightarrow> 50 < i
           | Some (PyFloat x) \<Rightarrow> 50 < x
           | _ \<Rightarrow> False))"

text \<open>
  "The phone is present and non-empty", as the specification words it, for a context whose
  phone, when there is one, is a string.
\<close>

definition spec_phone_present :: "pydict \<Rightarrow> bool" where
  "spec_phone_present ctx = (case map_of ctx ''phone'' of Some (PyStr s) \<Rightarrow> s \<noteq> [] | _ \<Rightarrow> False)"

text \<open>A field of the JSON body of a 200 response.\<close>

fun response_field :: "http_response \<Rightarrow> string \<Rightarrow> pyval option" where
  "response_field (Ok200 (PyDict r)) k = map_of r k"
| "response_field _ k = None"

text \<open>
  What \<open>int\<close> reads from a string of decimal digits; it serves as the \<open>int\<close> of the
  environment in the examples.
\<close>

definition digit_value :: "char \<Rightarrow> nat" where
  "digit_value ch = (case map_of (zip ''0123456789'' [0 ..< 10]) ch of None \<Rightarrow> 0 | Some n \<Rightarrow> n)"

definition parse_decimal :: "string \<Rightarrow> int option" where
  "parse_decimal s =
     (if s \<noteq> [] \<and> list_all (\<lambda>ch. ch \<in> set ''0123456789'') s
      then Some (int (foldl (\<lambda>n ch. 10 * n + digit_value ch) 0 s))
      else None)"



section \<open>Example inputs\<close>

text \<open>
  A client with neither a remote endpoint nor a local model, and an environment in which
  the database is connected and the insert raises.
\<close>

definition example_client :: ml_client where
  "example_client =
     \<lparr>use_real_ml = False, ml_api_url = [], ml_api_key = [], local_model = None\<rparr>"

definition example_env :: app_env where
  "example_env =
     \<lparr>ml = \<lparr>audio_opens = True, http = TransportError, inference_result = InferenceRaised,
              draws = \<lparr>choice_draw = 1, unit_draw = 0\<rparr>\<rparr>,
       secure_filename = id, uuid_hex = ''0f'', int_of_str = parse_decimal, save_ok = True,
       now_iso = ''2026-01-01T00:00:00'', supabase_connected = True,
       insert_result = InsertRaised ''connection lost'',
       sms_result = [(''success'', PyBool True), (''message'', PyStr ''Mock SMS sent'')]\<rparr>"

section \<open>Properties\<close>

lemma lower_char_not_upper: "lower_char c \<notin> set upper_letters"
  by (simp add: lower_char_def upper_letters_def lower_letters_def)

lemma lower_no_upper: "c \<in> set (lower s) \<Longrightarrow> c \<notin> set upper_letters"
  using lower_char_not_upper by (auto simp: lower_def)

lemma lower_ne_capital:
  "lower s \<noteq> ''Normal''" "lower s \<noteq> ''Abnormal''" "lower s \<noteq> ''Murmur''"
  using lower_no_upper [of "CHR ''N''" s] lower_no_upper [of "CHR ''A''" s]
    lower_no_upper [of "CHR ''M''" s]
  by (auto simp: upper_letters_def)

lemma risk_level_of_spec: "risk_level_of p = spec_tier p"
  using lower_ne_capital [of p]
  by (simp add: risk_level_of_def spec_tier_def risk_mapping_def)

lemma mock_risk_level_of_spec:
  "p \<in> set mock_predictions \<Longrightarrow> mock_risk_level_of p = spec_tier p"
  by (auto simp: mock_predictions_def mock_risk_level_of_def mock_risk_mapping_def
      spec_tier_def lower_def lower_char_def upper_letters_def lower_letters_def)

lemma mock_label: "mock_predictions ! (n mod length mock_predictions) \<in> set mock_predictions"
proof -
  have "n mod 3 = 0 \<or> n mod 3 = 1 \<or> n mod 3 = 2" by arith
  then show ?thesis by (auto simp: mock_predictions_def)
qed

lemma random_unit_range: "0 \<le> random_unit g" "random_unit g < 1"
proof -
  show "0 \<le> random_unit g" by (simp add: random_unit_def)
  have "unit_draw g mod 2 ^ 53 < (2::nat) ^ 53" by simp
  then have "real (unit_draw g mod 2 ^ 53) < real ((2::nat) ^ 53)"
    by (rule less_imp_of_nat_less)
  then show "random_unit g < 1" by (simp add: random_unit_def)
qed

lemma uniform_range:
  assumes "a \<le> b"
  shows "a \<le> uniform a b g" "uniform a b g \<le> b"
proof -
  have u: "0 \<le> random_unit g" "random_unit g \<le> 1"
    using random_unit_range [of g] by simp_all
  have nn: "0 \<le> b - a" using assms by simp
  have "0 \<le> (b - a) * random_unit g" using nn u(1) by simp
  then show "a \<le> uniform a b g" by (simp add: uniform_def)
  have "(b - a) * random_unit g \<le> (b - a) * 1"
    using nn u(2) by (rule mult_left_mono [rotated])
  then show "uniform a b g \<le> b" by (simp add: uniform_def)
qed

lemma round_half_even_bounds:
  assumes "of_int lo \<le> x" "x \<le> of_int hi"
  shows "lo \<le> round_half_even x" "round_half_even x \<le> hi"
proof -
  have lo: "lo \<le> \<lfloor>x\<rfloor>" using assms(1) by (simp add: le_floor_iff)
  have hi: "\<lfloor>x\<rfloor> \<le> hi" using assms(2) by (simp add: floor_le_iff)
  show "lo \<le> round_half_even x"
    using lo by (simp add: round_half_even_def Let_def)
  show "round_half_even x \<le> hi"
  proof (cases "\<lfloor>x\<rfloor> = hi")
    case True
    then have "x - of_int \<lfloor>x\<rfloor> \<le> 0" using assms(2) by simp
    then show ?thesis using True by (simp add: round_half_even_def Let_def)
  next
    case False
    then have "\<lfloor>x\<rfloor> + 1 \<le> hi" using hi by simp
    then show ?thesis by (simp add: round_half_even_def Let_def)
  qed
qed

lemma py_round3_range:
  assumes "of_int lo / 1000 \<le> x" "x \<le> of_int hi / 1000"
  shows "of_int lo / 1000 \<le> py_round 3 x" "py_round 3 x \<le> of_int hi / 1000"
proof -
  have a: "of_int lo \<le> x * 10 ^ 3" using assms(1) by (simp add: field_simps)
  have b: "x * 10 ^ 3 \<le> of_int hi" using assms(2) by (simp add: field_simps)
  have "lo \<le> round_half_even (x * 10 ^ 3)" "round_half_even (x * 10 ^ 3) \<le> hi"
    using round_half_even_bounds [OF a b] by simp_all
  then have "(of_int lo :: real) \<le> of_int (round_half_even (x * 10 ^ 3))"
    "(of_int (round_half_even (x * 10 ^ 3)) :: real) \<le> of_int hi"
    by simp_all
  then show "of_int lo / 1000 \<le> py_round 3 x" "py_round 3 x \<le> of_int hi / 1000"
    by (simp_all add: py_round_def divide_right_mono)
qed

lemma mock_confidence_range:
  "6 / 10 \<le> py_round 3 (uniform (6 / 10) (95 / 100) g)"
  "py_round 3 (uniform (6 / 10) (95 / 100) g) \<le> 95 / 100"
  using py_round3_range [of 600 "uniform (6 / 10) (95 / 100) g" 950]
    uniform_range [of "6 / 10" "95 / 100" g]
  by simp_all


text \<open>The shape of every mock result, used wherever the mock stands in.\<close>

lemma mock_analysis_shape:
  "\<exists>label conf.
     map_of (fst (mock_analysis g ctx)) ''prediction'' = Some (PyStr label)
     \<and> label \<in> {''normal'', ''abnormal'', ''murmur''}
     \<and> map_of (fst (mock_analysis g ctx)) ''confidence'' = Some (PyFloat conf)
     \<and> 6 / 10 \<le> conf \<and> conf \<le> 95 / 100
     \<and> map_of (fst (mock_analysis g ctx)) ''risk_level'' = Some (PyStr (spec_tier label))
     \<and> map_of (fst (mock_analysis g ctx)) ''ml_source'' = Some (PyStr ''mock'')"
proof -
  let ?p = "mock_predictions ! (choice_draw g mod length mock_predictions)"
  let ?c = "py_round 3 (uniform (6 / 10) (95 / 100) g)"
  have p: "?p \<in> set mock_predictions" by (rule mock_label)
  then have p': "?p \<in> {''normal'', ''abnormal'', ''murmur''}"
    by (simp add: mock_predictions_def)
  have t: "mock_risk_level_of ?p = spec_tier ?p" using p by (rule mock_risk_level_of_spec)
  have "map_of (fst (mock_analysis g ctx)) ''prediction'' = Some (PyStr ?p)"
    "map_of (fst (mock_analysis g ctx)) ''confidence'' = Some (PyFloat ?c)"
    "map_of (fst (mock_analysis g ctx)) ''risk_level'' = Some (PyStr (spec_tier ?p))"
    "map_of (fst (mock_analysis g ctx)) ''ml_source'' = Some (PyStr ''mock'')"
    using t by (simp_all add: mock_analysis_def Let_def)
  then show ?thesis using p' mock_confidence_range [of g] by blast
qed

lemma mock_analysis_events: "snd (mock_analysis g ctx) = [MockSleep]"
  by (simp add: mock_analysis_def Let_def)

text \<open>
  Claim C1. The risk tier that normalization assigns is the fixed mapping on the label
  read without regard to case: normal is low, abnormal is high, murmur is medium, and a
  label outside the table is medium, never low. This holds for the lookup of
  \<open>_format_local_ml_result\<close>, for every result that function returns, and for the tier
  that \<open>_mock_analysis\<close> puts beside its label.
\<close>

theorem risk_tier_fixed_mapping:
  "risk_level_of label = spec_tier label
   \<and> (lower label = ''normal'' \<longrightarrow> risk_level_of label = ''low'')
   \<and> (lower label = ''abnormal'' \<longrightarrow> risk_level_of label = ''high'')
   \<and> (lower label = ''murmur'' \<longrightarrow> risk_level_of label = ''medium'')
   \<and> (lower label \<notin> {''normal'', ''abnormal'', ''murmur''}
        \<longrightarrow> risk_level_of label = ''medium'' \<and> risk_level_of label \<noteq> ''low'')
   \<and> (map_of ml_result ''prediction'' = Some (PyStr label)
        \<and> format_local_ml_result c ml_result ctx = Inr r
        \<longrightarrow> map_of r ''risk_level'' = Some (PyStr (spec_tier label)))
   \<and> (map_of (fst (mock_analysis g ctx)) ''prediction'' = Some (PyStr label)
        \<longrightarrow> map_of (fst (mock_analysis g ctx)) ''risk_level'' = Some (PyStr (spec_tier label)))"
proof -
  have a: "risk_level_of label = spec_tier label" by (rule risk_level_of_spec)
  have b: "map_of r ''risk_level'' = Some (PyStr (spec_tier label))"
    if "map_of ml_result ''prediction'' = Some (PyStr label)"
      and "format_local_ml_result c ml_result ctx = Inr r"
    using that a
    by (auto simp: format_local_ml_result_def Let_def split: option.splits sum.splits)
  have d: "map_of (fst (mock_analysis g ctx)) ''risk_level'' = Some (PyStr (spec_tier label))"
    if "map_of (fst (mock_analysis g ctx)) ''prediction'' = Some (PyStr label)"
    using that mock_analysis_shape [of g ctx] by auto
  show ?thesis using a b d by (auto simp: spec_tier_def)
qed

theorem risk_tier_fixed_mapping_witness:
  "risk_level_of ''Normal'' = ''low''
   \<and> risk_level_of ''ABNORMAL'' = ''high''
   \<and> risk_level_of ''murmur'' = ''medium''
   \<and> risk_level_of ''unknown_label'' = ''medium''
   \<and> (\<exists>r. format_local_ml_result
           \<lparr>use_real_ml = False, ml_api_url = [], ml_api_key = [], local_model = None\<rparr>
           [(''prediction'', PyStr ''Abnormal''), (''confidence'', PyInt 1)] None = Inr r
         \<and> map_of r ''risk_level'' = Some (PyStr ''high''))"
proof -
  have lo: "lower ''Normal'' = ''normal''" "lower ''ABNORMAL'' = ''abnormal''"
    "lower ''murmur'' = ''murmur''" "lower ''unknown_label'' = ''unknown_label''"
    "lower ''Abnormal'' = ''abnormal''"
    by (simp_all add: lower_def lower_char_def upper_letters_def lower_letters_def)
  have nt: "lower ''unknown_label'' \<notin> {''normal'', ''abnormal'', ''murmur''}"
    by (simp add: lo)
  have 1: "risk_level_of ''Normal'' = ''low''"
    using risk_tier_fixed_mapping [of "''Normal''"] lo(1) by blast
  have 2: "risk_level_of ''ABNORMAL'' = ''high''"
    using risk_tier_fixed_mapping [of "''ABNORMAL''"] lo(2) by blast
  have 3: "risk_level_of ''murmur'' = ''medium''"
    using risk_tier_fixed_mapping [of "''murmur''"] lo(3) by blast
  have 4: "risk_level_of ''unknown_label'' = ''medium''"
    using risk_tier_fixed_mapping [of "''unknown_label''"] nt by blast
  let ?c = "\<lparr>use_real_ml = False, ml_api_url = [], ml_api_key = [], local_model = None\<rparr>"
  let ?ml = "[(''prediction'', PyStr ''Abnormal''), (''confidence'', PyInt 1)]"
  obtain r where r: "format_local_ml_result ?c ?ml None = Inr r"
    by (simp add: format_local_ml_result_def analysis_note_of_def Let_def)
  have p: "map_of ?ml ''prediction'' = Some (PyStr ''Abnormal'')" by simp
  have "map_of r ''risk_level'' = Some (PyStr (spec_tier ''Abnormal''))"
    using risk_tier_fixed_mapping [of "''Abnormal''" ?ml ?c None r] p r by blast
  then have 5: "map_of r ''risk_level'' = Some (PyStr ''high'')"
    using lo by (simp add: spec_tier_def)
  show ?thesis using 1 2 3 4 5 r by blast
qed




lemma mock_fallback_result:
  "mock_fallback env ctx before = (PyDict (fst (mock_analysis (draws env) ctx)), before @ [MockSleep])"
  by (simp add: mock_fallback_def mock_analysis_def Let_def)

text \<open>
  Claim C3. When the remote variant is selected and fails, by a status other than 200, a
  timeout or a transport exception (or because the audio file cannot be opened, or the
  body of a 200 answer is not JSON), the classifier returns the mock's result for that
  request: no exception, and a dictionary with a label, a confidence and provenance mock.
\<close>

theorem remote_failure_falls_back_to_mock:
  assumes "use_real_ml c" and "ml_api_url c \<noteq> []"
    and "audio_path = None \<or> \<not> audio_opens env
         \<or> http env = RequestTimeout \<or> http env = TransportError
         \<or> (\<exists>status body. http env = HttpResponse status body \<and> status \<noteq> 200)
         \<or> http env = HttpResponse 200 None"
  shows "fst (analyze_heart_sound c env audio_path ctx)
           = Inr (PyDict (fst (mock_analysis (draws env) ctx)))
         \<and> (\<exists>d label conf.
               fst (analyze_heart_sound c env audio_path ctx) = Inr (PyDict d)
               \<and> map_of d ''prediction'' = Some (PyStr label)
               \<and> label \<in> {''normal'', ''abnormal'', ''murmur''}
               \<and> map_of d ''confidence'' = Some (PyFloat conf)
               \<and> 6 / 10 \<le> conf \<and> conf \<le> 95 / 100
               \<and> map_of d ''ml_source'' = Some (PyStr ''mock''))"
proof -
  have "fst (call_external_ml_api c env audio_path ctx)
          = PyDict (fst (mock_analysis (draws env) ctx))"
    using assms(3)
    by (auto simp: call_external_ml_api_def mock_fallback_result split: http_outcome.splits)
  then have r: "fst (analyze_heart_sound c env audio_path ctx)
          = Inr (PyDict (fst (mock_analysis (draws env) ctx)))"
    using assms(1,2) by (simp add: analyze_heart_sound_def split_def)
  show ?thesis using r mock_analysis_shape [of "draws env" ctx] by auto
qed

theorem remote_failure_falls_back_to_mock_witness:
  "\<exists>d. fst (analyze_heart_sound
              \<lparr>use_real_ml = True, ml_api_url = ''http://ml.example/predict'', ml_api_key = [],
                local_model = None\<rparr>
              \<lparr>audio_opens = True, http = HttpResponse 503 None,
                inference_result = InferenceRaised, draws = \<lparr>choice_draw = 1, unit_draw = 0\<rparr>\<rparr>
              (Some ''uploads/a.wav'') None) = Inr (PyDict d)
        \<and> map_of d ''ml_source'' = Some (PyStr ''mock'')"
proof -
  let ?c = "\<lparr>use_real_ml = True, ml_api_url = ''http://ml.example/predict'', ml_api_key = [],
              local_model = None\<rparr>"
  let ?env = "\<lparr>audio_opens = True, http = HttpResponse 503 None,
                inference_result = InferenceRaised, draws = \<lparr>choice_draw = 1, unit_draw = 0\<rparr>\<rparr>"
  have 1: "use_real_ml ?c" and 2: "ml_api_url ?c \<noteq> []" by simp_all
  have 3: "Some ''uploads/a.wav'' = None \<or> \<not> audio_opens ?env
         \<or> http ?env = RequestTimeout \<or> http ?env = TransportError
         \<or> (\<exists>status body. http ?env = HttpResponse status body \<and> status \<noteq> 200)
         \<or> http ?env = HttpResponse 200 None"
    by simp
  show ?thesis
    using remote_failure_falls_back_to_mock [OF 1 2 3, of None] by blast
qed

lemma predict_from_audio_nonempty: "predict_from_audio m outcome g p = Inr result \<Longrightarrow> result \<noteq> []"
  by (auto simp: predict_from_audio_def mock_prediction_def Let_def
      split: if_splits inference.splits sum.splits)

lemma call_external_ml_api_events:
  "\<exists>rest. snd (call_external_ml_api c env p ctx) = OpenAudio p # rest
          \<and> (\<forall>q. LocalPredict q \<notin> set rest)"
  by (auto simp: call_external_ml_api_def mock_fallback_result
      split: http_outcome.splits option.splits)

text \<open>
  Claim C2. The classifier is chosen in this order. If the use-remote flag is set and a
  remote URL is configured, the remote variant is attempted: the call starts by opening
  the audio for the HTTP request, the local model is not consulted, and the answer is that
  of \<open>_call_external_ml_api\<close>. Otherwise, if a local model was loaded at startup, the
  local variant is used: the only outside call is its prediction, whose result is
  formatted. Otherwise the mock variant answers. At startup a local model is held exactly
  when the flag is off, the loader could be imported and the constructor did not raise.
\<close>

theorem classifier_selection_policy:
  "(use_real_ml c \<and> ml_api_url c \<noteq> [] \<longrightarrow>
      fst (analyze_heart_sound c env p ctx) = Inr (fst (call_external_ml_api c env p ctx))
      \<and> (\<exists>rest. snd (analyze_heart_sound c env p ctx) = OpenAudio p # rest
                 \<and> (\<forall>q. LocalPredict q \<notin> set rest)))
   \<and> (\<not> (use_real_ml c \<and> ml_api_url c \<noteq> []) \<and> local_model c = Some m \<longrightarrow>
      snd (analyze_heart_sound c env p ctx) = [LocalPredict p]
      \<and> fst (analyze_heart_sound c env p ctx) =
          (case predict_from_audio m (inference_result env) (draws env) p of
             Inl e \<Rightarrow> Inl e
           | Inr result \<Rightarrow>
               (case format_local_ml_result c result ctx of
                  Inl e \<Rightarrow> Inl e
                | Inr r \<Rightarrow> Inr (PyDict r))))
   \<and> (\<not> (use_real_ml c \<and> ml_api_url c \<noteq> []) \<and> local_model c = None \<longrightarrow>
      analyze_heart_sound c env p ctx
        = (Inr (PyDict (fst (mock_analysis (draws env) ctx))), [MockSleep]))
   \<and> (local_model (ml_client_init USE_REAL_ML ML_API_URL ML_API_KEY HAS_LOCAL_MODEL constructed)
         \<noteq> None
       \<longleftrightarrow> lower (getenv USE_REAL_ML ''false'') \<noteq> ''true'' \<and> HAS_LOCAL_MODEL
           \<and> constructed \<noteq> None)"
proof -
  have remote: "fst (analyze_heart_sound c env p ctx) = Inr (fst (call_external_ml_api c env p ctx))
      \<and> (\<exists>rest. snd (analyze_heart_sound c env p ctx) = OpenAudio p # rest
                 \<and> (\<forall>q. LocalPredict q \<notin> set rest))"
    if "use_real_ml c \<and> ml_api_url c \<noteq> []"
    using that call_external_ml_api_events [of c env p ctx]
    by (simp add: analyze_heart_sound_def split_def Let_def)
  have loc: "snd (analyze_heart_sound c env p ctx) = [LocalPredict p]
      \<and> fst (analyze_heart_sound c env p ctx) =
          (case predict_from_audio m (inference_result env) (draws env) p of
             Inl e \<Rightarrow> Inl e
           | Inr result \<Rightarrow>
               (case format_local_ml_result c result ctx of
                  Inl e \<Rightarrow> Inl e
                | Inr r \<Rightarrow> Inr (PyDict r)))"
    if "\<not> (use_real_ml c \<and> ml_api_url c \<noteq> [])" and "local_model c = Some m"
  proof (cases "predict_from_audio m (inference_result env) (draws env) p")
    case (Inl e)
    then show ?thesis using that by (auto simp: analyze_heart_sound_def)
  next
    case (Inr result)
    then have "result \<noteq> []" by (rule predict_from_audio_nonempty)
    then show ?thesis using that Inr
      by (auto simp: analyze_heart_sound_def split: sum.splits)
  qed
  have mock: "analyze_heart_sound c env p ctx
        = (Inr (PyDict (fst (mock_analysis (draws env) ctx))), [MockSleep])"
    if "\<not> (use_real_ml c \<and> ml_api_url c \<noteq> [])" and "local_model c = None"
    using that by (auto simp: analyze_heart_sound_def mock_analysis_def Let_def)
  have init: "local_model (ml_client_init USE_REAL_ML ML_API_URL ML_API_KEY HAS_LOCAL_MODEL constructed)
         \<noteq> None
       \<longleftrightarrow> lower (getenv USE_REAL_ML ''false'') \<noteq> ''true'' \<and> HAS_LOCAL_MODEL
           \<and> constructed \<noteq> None"
    by (simp add: ml_client_init_def Let_def)
  show ?thesis using remote loc mock init by blast
qed

theorem classifier_selection_policy_witness:
  "(\<exists>rest. snd (analyze_heart_sound
                 \<lparr>use_real_ml = True, ml_api_url = ''http://ml.example/predict'',
                   ml_api_key = [], local_model = None\<rparr>
                 \<lparr>audio_opens = True, http = RequestTimeout, inference_result = InferenceRaised,
                   draws = \<lparr>choice_draw = 0, unit_draw = 0\<rparr>\<rparr>
                 (Some ''uploads/a.wav'') None) = OpenAudio (Some ''uploads/a.wav'') # rest)
   \<and> snd (analyze_heart_sound
            \<lparr>use_real_ml = False, ml_api_url = ''http://ml.example/predict'', ml_api_key = [],
              local_model = Some \<lparr>model_present = True, model_info = []\<rparr>\<rparr>
            \<lparr>audio_opens = True, http = RequestTimeout, inference_result = InferenceRaised,
              draws = \<lparr>choice_draw = 0, unit_draw = 0\<rparr>\<rparr>
            (Some ''uploads/a.wav'') None) = [LocalPredict (Some ''uploads/a.wav'')]
   \<and> snd (analyze_heart_sound
            \<lparr>use_real_ml = True, ml_api_url = [], ml_api_key = [], local_model = None\<rparr>
            \<lparr>audio_opens = True, http = RequestTimeout, inference_result = InferenceRaised,
              draws = \<lparr>choice_draw = 0, unit_draw = 0\<rparr>\<rparr>
            (Some ''uploads/a.wav'') None) = [MockSleep]"
proof -
  let ?env = "\<lparr>audio_opens = True, http = RequestTimeout, inference_result = InferenceRaised,
                draws = \<lparr>choice_draw = 0, unit_draw = 0\<rparr>\<rparr>"
  let ?remote = "\<lparr>use_real_ml = True, ml_api_url = ''http://ml.example/predict'',
                   ml_api_key = [], local_model = None\<rparr>"
  let ?m = "\<lparr>model_present = True, model_info = []\<rparr>"
  let ?local = "\<lparr>use_real_ml = False, ml_api_url = ''http://ml.example/predict'', ml_api_key = [],
                  local_model = Some ?m\<rparr>"
  let ?mock = "\<lparr>use_real_ml = True, ml_api_url = [], ml_api_key = [], local_model = None\<rparr>"
  let ?p = "Some ''uploads/a.wav''"
  have r: "use_real_ml ?remote \<and> ml_api_url ?remote \<noteq> []" by simp
  have l: "\<not> (use_real_ml ?local \<and> ml_api_url ?local \<noteq> []) \<and> local_model ?local = Some ?m"
    by simp
  have k: "\<not> (use_real_ml ?mock \<and> ml_api_url ?mock \<noteq> []) \<and> local_model ?mock = None"
    by simp
  have 1: "\<exists>rest. snd (analyze_heart_sound ?remote ?env ?p None) = OpenAudio ?p # rest"
    using classifier_selection_policy [where c = ?remote and env = ?env and p = ?p and ctx = None] r
    by blast
  have 2: "snd (analyze_heart_sound ?local ?env ?p None) = [LocalPredict ?p]"
    using classifier_selection_policy [where c = ?local and env = ?env and p = ?p and ctx = None
        and m = ?m] l
    by blast
  have "analyze_heart_sound ?mock ?env ?p None
        = (Inr (PyDict (fst (mock_analysis (draws ?env) None))), [MockSleep])"
    using classifier_selection_policy [where c = ?mock and env = ?env and p = ?p and ctx = None] k
    by blast
  then have 3: "snd (analyze_heart_sound ?mock ?env ?p None) = [MockSleep]" by simp
  show ?thesis using 1 2 3 by blast
qed

lemma analysis_note_of_spec:
  "analysis_note_of ctx tier = Inr note \<Longrightarrow>
     note = (if spec_age_over_50 ctx \<and> tier \<noteq> ''low'' then over_50_note else [])"
  by (cases ctx)
    (auto simp: analysis_note_of_def spec_age_over_50_def dict_get_def
      split: if_splits option.splits sum.splits pyval.splits elim: py_gt.elims)

lemma format_local_ml_result_fields:
  assumes "format_local_ml_result c ml_result ctx = Inr r"
  shows "\<exists>label conf rounded note.
           map_of ml_result ''prediction'' = Some (PyStr label)
           \<and> map_of ml_result ''confidence'' = Some conf
           \<and> py_round_val 4 conf = Inr rounded
           \<and> analysis_note_of ctx (risk_level_of label) = Inr note
           \<and> r = [(''prediction'', PyStr label),
                  (''confidence'', rounded),
                  (''risk_level'', PyStr (risk_level_of label)),
                  (''recommendation'', PyStr (str_get recommendations (risk_level_of label))),
                  (''analysis_note'', PyStr note),
                  (''probabilities'', dict_get ml_result ''probabilities'' (PyList [])),
                  (''class_names'', dict_get ml_result ''class_names'' default_classes),
                  (''ml_source'', PyStr ''local_cnn_model''),
                  (''model_info'',
                     PyDict (case local_model c of None \<Rightarrow> [] | Some m \<Rightarrow> model_info m))]"
  using assms
  by (auto simp: format_local_ml_result_def Let_def
      split: option.splits sum.splits pyval.splits)

text \<open>
  Claim C6. In every result of \<open>_format_local_ml_result\<close> the analysis note is the
  over-50 note exactly when the patient context's age is greater than 50 and the risk tier
  of the result is not low, and is empty otherwise. Two results for the same prediction
  under different patient contexts differ in nothing but that note. A result is returned
  whenever the prediction carries a string label and a float confidence and the context
  is absent, or has no age, or has an integer age.
\<close>

theorem analysis_note_iff_over_50_and_not_low:
  "(format_local_ml_result c ml_result ctx = Inr r \<longrightarrow>
      map_of r ''analysis_note'' =
        Some (PyStr (if spec_age_over_50 ctx \<and> map_of r ''risk_level'' \<noteq> Some (PyStr ''low'')
                     then over_50_note else [])))
   \<and> (format_local_ml_result c ml_result ctx = Inr r
       \<and> format_local_ml_result c ml_result ctx' = Inr r'
       \<longrightarrow> (\<forall>k. k \<noteq> ''analysis_note'' \<longrightarrow> map_of r k = map_of r' k))
   \<and> (map_of ml_result ''prediction'' = Some (PyStr label)
       \<and> map_of ml_result ''confidence'' = Some (PyFloat x)
       \<and> (ctx = None \<or> (\<exists>d. ctx = Some d \<and> map_of d ''age'' = None)
            \<or> (\<exists>d i. ctx = Some d \<and> map_of d ''age'' = Some (PyInt i)))
       \<longrightarrow> (\<exists>res. format_local_ml_result c ml_result ctx = Inr res))"
proof -
  have nt: "map_of r ''analysis_note'' =
        Some (PyStr (if spec_age_over_50 ctx \<and> map_of r ''risk_level'' \<noteq> Some (PyStr ''low'')
                     then over_50_note else []))"
    if fr: "format_local_ml_result c ml_result ctx = Inr r"
  proof -
    obtain label s where n: "analysis_note_of ctx (risk_level_of label) = Inr s"
      and k: "map_of r ''analysis_note'' = Some (PyStr s)"
      and t: "map_of r ''risk_level'' = Some (PyStr (risk_level_of label))"
      using format_local_ml_result_fields [OF fr] by auto
    show ?thesis using analysis_note_of_spec [OF n] k t by simp
  qed
  have only: "map_of r k = map_of r' k"
    if "format_local_ml_result c ml_result ctx = Inr r"
      and "format_local_ml_result c ml_result ctx' = Inr r'" and "k \<noteq> ''analysis_note''" for k
    using format_local_ml_result_fields [OF that(1)] format_local_ml_result_fields [OF that(2)]
      that(3)
    by auto
  have total: "\<exists>res. format_local_ml_result c ml_result ctx = Inr res"
    if "map_of ml_result ''prediction'' = Some (PyStr label)"
      and "map_of ml_result ''confidence'' = Some (PyFloat x)"
      and "ctx = None \<or> (\<exists>d. ctx = Some d \<and> map_of d ''age'' = None)
            \<or> (\<exists>d i. ctx = Some d \<and> map_of d ''age'' = Some (PyInt i))"
    using that
    by (auto simp: format_local_ml_result_def analysis_note_of_def dict_get_def Let_def)
  show ?thesis using nt only total by blast
qed

theorem analysis_note_iff_over_50_and_not_low_witness:
  "\<exists>r. format_local_ml_result
          \<lparr>use_real_ml = False, ml_api_url = [], ml_api_key = [], local_model = None\<rparr>
          [(''prediction'', PyStr ''abnormal''), (''confidence'', PyFloat (9 / 10))]
          (Some [(''age'', PyInt 60), (''phone'', PyStr ''+15550100'')]) = Inr r
       \<and> map_of r ''risk_level'' = Some (PyStr ''high'')
       \<and> map_of r ''analysis_note'' = Some (PyStr over_50_note)"
proof -
  let ?c = "\<lparr>use_real_ml = False, ml_api_url = [], ml_api_key = [], local_model = None\<rparr>"
  let ?ml = "[(''prediction'', PyStr ''abnormal''), (''confidence'', PyFloat (9 / 10))]"
  let ?ctx = "Some [(''age'', PyInt 60), (''phone'', PyStr ''+15550100'')]"
  have h: "map_of ?ml ''prediction'' = Some (PyStr ''abnormal'')
       \<and> map_of ?ml ''confidence'' = Some (PyFloat (9 / 10))
       \<and> (?ctx = None \<or> (\<exists>d. ?ctx = Some d \<and> map_of d ''age'' = None)
            \<or> (\<exists>d i. ?ctx = Some d \<and> map_of d ''age'' = Some (PyInt i)))"
    by simp
  obtain r where r: "format_local_ml_result ?c ?ml ?ctx = Inr r"
    using analysis_note_iff_over_50_and_not_low
      [where c = ?c and ml_result = ?ml and ctx = ?ctx and label = "''abnormal''" and x = "9 / 10"]
      h
    by blast
  have t: "map_of r ''risk_level'' = Some (PyStr ''high'')"
    using r
    by (auto simp: format_local_ml_result_def Let_def risk_level_of_def risk_mapping_def
        lower_def lower_char_def upper_letters_def lower_letters_def
        split: sum.splits)
  have o: "spec_age_over_50 ?ctx" by (simp add: spec_age_over_50_def)
  have "map_of r ''analysis_note'' =
        Some (PyStr (if spec_age_over_50 ?ctx \<and> map_of r ''risk_level'' \<noteq> Some (PyStr ''low'')
                     then over_50_note else []))"
    using analysis_note_iff_over_50_and_not_low
      [where c = ?c and ml_result = ?ml and ctx = ?ctx and r = r] r
    by blast
  then have "map_of r ''analysis_note'' = Some (PyStr over_50_note)"
    using t o by simp
  then show ?thesis using r t by blast
qed

text \<open>
  Claim C7. The classify operation is to return a complete result for every patient
  context the data model permits, a null age included. With a local model loaded it does
  not: for the context that the analyze endpoint builds from a form without an age field,
  \<open>_format_local_ml_result\<close> compares \<open>None\<close> with 50 and the TypeError leaves
  \<open>analyze_heart_sound\<close>; the endpoint answers with status 500.
\<close>

theorem classify_raises_on_null_age:
  "patient_context_of
     \<lparr>ml = \<lparr>audio_opens = True, http = TransportError,
              inference_result = Predictions [1 / 5, 4 / 5],
              draws = \<lparr>choice_draw = 0, unit_draw = 0\<rparr>\<rparr>,
       secure_filename = id, uuid_hex = ''0f'', int_of_str = parse_decimal, save_ok = True,
       now_iso = ''2026-01-01T00:00:00'', supabase_connected = False,
       insert_result = InsertReturned [], sms_result = [(''success'', PyBool True)]\<rparr>
     \<lparr>audio_filename = Some ''a.wav'', form = [(''patient_id'', ''P1'')]\<rparr>
     = [(''patient_id'', PyStr ''P1''), (''name'', PyStr []), (''age'', PyNone),
        (''gender'', PyStr []), (''doctor_id'', PyStr []), (''symptoms'', PyStr [])]
   \<and> analyze_heart_sound
       \<lparr>use_real_ml = False, ml_api_url = [], ml_api_key = [],
         local_model = Some \<lparr>model_present = True, model_info = []\<rparr>\<rparr>
       \<lparr>audio_opens = True, http = TransportError,
         inference_result = Predictions [1 / 5, 4 / 5],
         draws = \<lparr>choice_draw = 0, unit_draw = 0\<rparr>\<rparr>
       (Some ''uploads/0f_a.wav'')
       (Some [(''patient_id'', PyStr ''P1''), (''name'', PyStr []), (''age'', PyNone),
              (''gender'', PyStr []), (''doctor_id'', PyStr []), (''symptoms'', PyStr [])])
     = (Inl TypeError, [LocalPredict (Some ''uploads/0f_a.wav'')])
   \<and> analyze_endpoint
       \<lparr>use_real_ml = False, ml_api_url = [], ml_api_key = [],
         local_model = Some \<lparr>model_present = True, model_info = []\<rparr>\<rparr>
       \<lparr>ml = \<lparr>audio_opens = True, http = TransportError,
                inference_result = Predictions [1 / 5, 4 / 5],
                draws = \<lparr>choice_draw = 0, unit_draw = 0\<rparr>\<rparr>,
         secure_filename = id, uuid_hex = ''0f'', int_of_str = parse_decimal, save_ok = True,
         now_iso = ''2026-01-01T00:00:00'', supabase_connected = False,
         insert_result = InsertReturned [], sms_result = [(''success'', PyBool True)]\<rparr>
       \<lparr>audio_filename = Some ''a.wav'', form = [(''patient_id'', ''P1'')]\<rparr>
     = (ServerError500 TypeError,
        [SaveUpload ''uploads/0f_a.wav'', LocalPredict (Some ''uploads/0f_a.wav'')])"
proof -
  let ?ctx = "[(''patient_id'', PyStr ''P1''), (''name'', PyStr []), (''age'', PyNone),
              (''gender'', PyStr []), (''doctor_id'', PyStr []), (''symptoms'', PyStr [])]"
  let ?c = "\<lparr>use_real_ml = False, ml_api_url = [], ml_api_key = [],
         local_model = Some \<lparr>model_present = True, model_info = []\<rparr>\<rparr>"
  let ?ml = "\<lparr>audio_opens = True, http = TransportError,
         inference_result = Predictions [1 / 5, 4 / 5],
         draws = \<lparr>choice_draw = 0, unit_draw = 0\<rparr>\<rparr>"
  let ?env = "\<lparr>ml = ?ml,
         secure_filename = id, uuid_hex = ''0f'', int_of_str = parse_decimal, save_ok = True,
         now_iso = ''2026-01-01T00:00:00'', supabase_connected = False,
         insert_result = InsertReturned [], sms_result = [(''success'', PyBool True)]\<rparr>"
  let ?req = "\<lparr>audio_filename = Some ''a.wav'', form = [(''patient_id'', ''P1'')]\<rparr>"
  have ctx: "patient_context_of ?env ?req = ?ctx"
    by (simp add: patient_context_of_def form_get_def form_get_int_def)
  have pr: "predict_from_audio \<lparr>model_present = True, model_info = []\<rparr>
              (Predictions [1 / 5, 4 / 5]) \<lparr>choice_draw = 0, unit_draw = 0\<rparr>
              (Some ''uploads/0f_a.wav'')
            = Inr [(''prediction'', PyStr ''abnormal''),
                   (''confidence'', PyFloat (py_round 4 (4 / 5))),
                   (''probabilities'', PyList [PyFloat (1 / 5), PyFloat (4 / 5)]),
                   (''class_names'', default_classes),
                   (''model_source'', PyStr ''real_cnn_model''),
                   (''model_note'', PyStr [])]"
    by (simp add: predict_from_audio_def argmax_def dict_get_def default_classes_def Let_def)
  have fm: "format_local_ml_result ?c
              [(''prediction'', PyStr ''abnormal''),
               (''confidence'', PyFloat (py_round 4 (4 / 5))),
               (''probabilities'', PyList [PyFloat (1 / 5), PyFloat (4 / 5)]),
               (''class_names'', default_classes),
               (''model_source'', PyStr ''real_cnn_model''),
               (''model_note'', PyStr [])] (Some ?ctx) = Inl TypeError"
    by (simp add: format_local_ml_result_def analysis_note_of_def dict_get_def Let_def)
  have cl: "analyze_heart_sound ?c ?ml (Some ''uploads/0f_a.wav'') (Some ?ctx)
            = (Inl TypeError, [LocalPredict (Some ''uploads/0f_a.wav'')])"
    by (simp add: analyze_heart_sound_def pr fm)
  have al: "allowed_file ''a.wav''"
    by (simp add: allowed_file_def rsplit_last_def ALLOWED_EXTENSIONS_def lower_def
        lower_char_def upper_letters_def lower_letters_def)
  have ep: "analyze_endpoint ?c ?env ?req
            = (ServerError500 TypeError,
               [SaveUpload ''uploads/0f_a.wav'', LocalPredict (Some ''uploads/0f_a.wav'')])"
    using cl
    by (simp add: analyze_endpoint_def unique_filename_of_def audio_path_of_def al ctx Let_def)
  show ?thesis using ctx cl ep by simp
qed

lemma rsplit_last_ext: "CHR ''.'' \<notin> set ext \<Longrightarrow> rsplit_last (base @ ''.'' @ ext) = ext"
proof -
  assume "CHR ''.'' \<notin> set ext"
  then have "takeWhile (\<lambda>ch. ch \<noteq> CHR ''.'') (rev ext @ CHR ''.'' # rev base) = rev ext"
    by (auto simp: takeWhile_tail)
  then show ?thesis by (simp add: rsplit_last_def)
qed

text \<open>
  Claim C8. An analyze request with no audio part, with an empty filename, or with a
  filename whose extension (what follows the last dot, lower-cased) is not wav, mp3 or
  m4a, or which has no dot at all, is answered with status 400 and no outside call is
  made: nothing is stored, classified, persisted or sent.
\<close>

theorem invalid_audio_rejected_without_side_effects:
  assumes "audio_filename req = None
           \<or> audio_filename req = Some []
           \<or> (\<exists>base ext. audio_filename req = Some (base @ ''.'' @ ext) \<and> CHR ''.'' \<notin> set ext
                 \<and> lower ext \<notin> {''wav'', ''mp3'', ''m4a''})
           \<or> (\<exists>name. audio_filename req = Some name \<and> CHR ''.'' \<notin> set name)"
  shows "\<exists>msg. analyze_endpoint c env req = (BadRequest400 msg, [])"
proof -
  consider (none) "audio_filename req = None"
    | (empty) "audio_filename req = Some []"
    | (ext) base ext where "audio_filename req = Some (base @ ''.'' @ ext)"
        "CHR ''.'' \<notin> set ext" "lower ext \<notin> {''wav'', ''mp3'', ''m4a''}"
    | (nodot) name where "audio_filename req = Some name" "CHR ''.'' \<notin> set name"
    using assms by (elim disjE exE conjE) blast+
  then show ?thesis
  proof cases
    case none
    then show ?thesis by (simp add: analyze_endpoint_def)
  next
    case empty
    then show ?thesis by (simp add: analyze_endpoint_def)
  next
    case ext
    have "\<not> allowed_file (base @ ''.'' @ ext)"
      using rsplit_last_ext [OF ext(2), of base] ext(3)
      by (simp add: allowed_file_def ALLOWED_EXTENSIONS_def)
    then show ?thesis using ext(1) by (simp add: analyze_endpoint_def)
  next
    case nodot
    then have "\<not> allowed_file name" by (simp add: allowed_file_def)
    then show ?thesis using nodot(1) by (simp add: analyze_endpoint_def)
  qed
qed

theorem invalid_audio_rejected_without_side_effects_witness:
  "(\<exists>msg. analyze_endpoint example_client example_env \<lparr>audio_filename = None, form = [(''patient_id'', ''P1'')]\<rparr>
            = (BadRequest400 msg, []))
   \<and> (\<exists>msg. analyze_endpoint example_client example_env \<lparr>audio_filename = Some [], form = []\<rparr>
            = (BadRequest400 msg, []))
   \<and> (\<exists>msg. analyze_endpoint example_client example_env \<lparr>audio_filename = Some ''heart.wav.EXE'', form = []\<rparr>
            = (BadRequest400 msg, []))
   \<and> (\<exists>msg. analyze_endpoint example_client example_env \<lparr>audio_filename = Some ''wav'', form = []\<rparr>
            = (BadRequest400 msg, []))"
proof -
  have lo: "lower ''EXE'' = ''exe''"
    by (simp add: lower_def lower_char_def upper_letters_def lower_letters_def)
  have e: "\<exists>base ext. Some ''heart.wav.EXE'' = Some (base @ ''.'' @ ext) \<and> CHR ''.'' \<notin> set ext
                 \<and> lower ext \<notin> {''wav'', ''mp3'', ''m4a''}"
    using lo by (intro exI [of _ "''heart.wav''"] exI [of _ "''EXE''"]) simp
  have n: "\<exists>name. Some ''wav'' = Some name \<and> CHR ''.'' \<notin> set name" by simp
  have 1: "\<exists>msg. analyze_endpoint example_client example_env \<lparr>audio_filename = None, form = [(''patient_id'', ''P1'')]\<rparr>
            = (BadRequest400 msg, [])"
    by (rule invalid_audio_rejected_without_side_effects) simp
  have 2: "\<exists>msg. analyze_endpoint example_client example_env \<lparr>audio_filename = Some [], form = []\<rparr>
            = (BadRequest400 msg, [])"
    by (rule invalid_audio_rejected_without_side_effects) simp
  have 3: "\<exists>msg. analyze_endpoint example_client example_env \<lparr>audio_filename = Some ''heart.wav.EXE'', form = []\<rparr>
            = (BadRequest400 msg, [])"
    by (rule invalid_audio_rejected_without_side_effects) (use e in simp)
  have 4: "\<exists>msg. analyze_endpoint example_client example_env \<lparr>audio_filename = Some ''wav'', form = []\<rparr>
            = (BadRequest400 msg, [])"
    by (rule invalid_audio_rejected_without_side_effects) (use n in simp)
  show ?thesis using 1 2 3 4 by blast
qed

lemma patient_context_no_phone: "map_of (patient_context_of env req) ''phone'' = None"
  by (simp add: patient_context_of_def)

lemma alert_and_respond_without_phone:
  "map_of ctx ''phone'' = None \<Longrightarrow>
     alert_and_respond env d ctx db u =
       (AList.update ''audio_file'' (PyStr u)
          (AList.update ''screening_id'' (dict_get db ''id'' (PyStr [])) d), [])"
  by (simp add: alert_and_respond_def dict_get_def)

lemma analyze_endpoint_processed:
  assumes "audio_filename req = Some f" and "f \<noteq> []" and "allowed_file f" and "save_ok env"
    and "fst (analyze_heart_sound c (ml env) (Some (audio_path_of env f))
                (Some (patient_context_of env req))) = Inr (PyDict d)"
  shows "fst (analyze_endpoint c env req) =
           Ok200 (PyDict
             (AList.update ''audio_file'' (PyStr (unique_filename_of env f))
                (AList.update ''screening_id''
                   (dict_get
                      (fst (save_screening_result env
                              (screening_data_of env req (unique_filename_of env f) d)))
                      ''id'' (PyStr []))
                   d)))"
  using assms
  by (simp add: analyze_endpoint_def Let_def split_def
      alert_and_respond_without_phone [OF patient_context_no_phone])

lemma save_failed_no_id:
  "map_of (fst (save_screening_result env sd)) ''success'' = Some (PyBool False) \<Longrightarrow>
     map_of (fst (save_screening_result env sd)) ''id'' = None"
  by (auto simp: save_screening_result_def Let_def
      split: if_splits insert_outcome.splits list.splits)

text \<open>
  Claim C9. When a request has passed validation and classification and the persistence
  write then fails (\<open>save_screening_result\<close> reports success false), the endpoint still
  answers 200: every field of the classifier's result is returned unchanged, and the
  screening identifier is the empty string.
\<close>

theorem persistence_failure_keeps_response:
  assumes "audio_filename req = Some f" and "f \<noteq> []" and "allowed_file f" and "save_ok env"
    and "fst (analyze_heart_sound c (ml env) (Some (audio_path_of env f))
                (Some (patient_context_of env req))) = Inr (PyDict d)"
    and "map_of (fst (save_screening_result env
                        (screening_data_of env req (unique_filename_of env f) d)))
           ''success'' = Some (PyBool False)"
  shows "\<exists>r. fst (analyze_endpoint c env req) = Ok200 (PyDict r)
             \<and> map_of r ''screening_id'' = Some (PyStr [])
             \<and> (\<forall>k. k \<noteq> ''screening_id'' \<and> k \<noteq> ''audio_file'' \<longrightarrow> map_of r k = map_of d k)"
proof -
  let ?db = "fst (save_screening_result env
                    (screening_data_of env req (unique_filename_of env f) d))"
  let ?r = "AList.update ''audio_file'' (PyStr (unique_filename_of env f))
              (AList.update ''screening_id'' (dict_get ?db ''id'' (PyStr [])) d)"
  have r: "fst (analyze_endpoint c env req) = Ok200 (PyDict ?r)"
    using assms(1-5) by (rule analyze_endpoint_processed)
  have "map_of ?db ''id'' = None" using assms(6) by (rule save_failed_no_id)
  then have idv: "dict_get ?db ''id'' (PyStr []) = PyStr []" by (simp add: dict_get_def)
  have 1: "map_of ?r ''screening_id'' = Some (PyStr [])"
    by (simp add: update_conv' idv)
  have 2: "\<forall>k. k \<noteq> ''screening_id'' \<and> k \<noteq> ''audio_file'' \<longrightarrow> map_of ?r k = map_of d k"
    by (simp add: update_conv')
  show ?thesis using r 1 2 by blast
qed

theorem persistence_failure_keeps_response_witness:
  "\<exists>r. fst (analyze_endpoint example_client example_env
               \<lparr>audio_filename = Some ''a.wav'', form = [(''patient_id'', ''P1''), (''age'', ''60'')]\<rparr>)
          = Ok200 (PyDict r)
       \<and> map_of r ''screening_id'' = Some (PyStr [])
       \<and> map_of r ''ml_source'' = Some (PyStr ''mock'')"
proof -
  let ?req = "\<lparr>audio_filename = Some ''a.wav'', form = [(''patient_id'', ''P1''), (''age'', ''60'')]\<rparr>"
  let ?d = "fst (mock_analysis (draws (ml example_env)) (Some (patient_context_of example_env ?req)))"
  have 1: "audio_filename ?req = Some ''a.wav''" and 2: "''a.wav'' \<noteq> []" by simp_all
  have 3: "allowed_file ''a.wav''"
    by (simp add: allowed_file_def rsplit_last_def ALLOWED_EXTENSIONS_def lower_def
        lower_char_def upper_letters_def lower_letters_def)
  have 4: "save_ok example_env" by (simp add: example_env_def)
  have 5: "fst (analyze_heart_sound example_client (ml example_env)
                  (Some (audio_path_of example_env ''a.wav''))
                  (Some (patient_context_of example_env ?req))) = Inr (PyDict ?d)"
    by (simp add: analyze_heart_sound_def example_client_def split_def Let_def)
  have 6: "map_of (fst (save_screening_result example_env
                        (screening_data_of example_env ?req
                           (unique_filename_of example_env ''a.wav'') ?d)))
           ''success'' = Some (PyBool False)"
    by (simp add: save_screening_result_def example_env_def)
  obtain r where r: "fst (analyze_endpoint example_client example_env ?req) = Ok200 (PyDict r)"
    and s: "map_of r ''screening_id'' = Some (PyStr [])"
    and k: "\<forall>k. k \<noteq> ''screening_id'' \<and> k \<noteq> ''audio_file'' \<longrightarrow> map_of r k = map_of ?d k"
    using persistence_failure_keeps_response [OF 1 2 3 4 5 6] by blast
  have "map_of r ''ml_source'' = map_of ?d ''ml_source''" using k by simp
  then have "map_of r ''ml_source'' = Some (PyStr ''mock'')"
    by (simp add: mock_analysis_def Let_def)
  then show ?thesis using r s by blast
qed

lemma truthy_phone_iff:
  assumes "map_of ctx ''phone'' = None \<or> map_of ctx ''phone'' = Some PyNone
           \<or> (\<exists>s. map_of ctx ''phone'' = Some (PyStr s))"
  shows "truthy (dict_get ctx ''phone'' PyNone) = spec_phone_present ctx"
  using assms by (auto simp: dict_get_def spec_phone_present_def)

text \<open>
  The block "Send SMS alert if high risk" on its own does what is asked of it: given a
  context with a phone it dispatches one alert exactly when the tier is high and the phone
  is non-empty.
\<close>

lemma alert_block_dispatch:
  assumes "map_of ctx ''phone'' = None \<or> map_of ctx ''phone'' = Some PyNone
           \<or> (\<exists>s. map_of ctx ''phone'' = Some (PyStr s))"
  shows "snd (alert_and_respond env d ctx db u) =
           (if map_of d ''risk_level'' = Some (PyStr ''high'') \<and> spec_phone_present ctx
            then [SmsAlert (dict_get ctx ''phone'' PyNone) (dict_get d ''recommendation'' (PyStr []))]
            else [])"
  by (simp add: alert_and_respond_def truthy_phone_iff [OF assms])

text \<open>
  Claim C4. An alert is to be dispatched, once, for every processed request whose risk tier
  is high and whose patient has a non-empty phone. The analyze endpoint does not: it never
  copies the phone of the form into the patient context it tests. For a request with a
  phone and a result of tier high, no alert is dispatched and the response has no
  \<open>sms_sent\<close>; the outside calls are the upload and the mock's sleep, nothing else. The
  same alert block, given a context that holds the phone, dispatches the alert.
\<close>

theorem analyze_endpoint_drops_phone_alert:
  "response_field
     (fst (analyze_endpoint
             \<lparr>use_real_ml = False, ml_api_url = [], ml_api_key = [], local_model = None\<rparr>
             \<lparr>ml = \<lparr>audio_opens = True, http = TransportError,
                      inference_result = InferenceRaised,
                      draws = \<lparr>choice_draw = 1, unit_draw = 0\<rparr>\<rparr>,
               secure_filename = id, uuid_hex = ''0f'', int_of_str = parse_decimal,
               save_ok = True, now_iso = ''2026-01-01T00:00:00'', supabase_connected = False,
               insert_result = InsertReturned [], sms_result = [(''success'', PyBool True)]\<rparr>
             \<lparr>audio_filename = Some ''a.wav'',
               form = [(''patient_id'', ''P1''), (''age'', ''60''), (''phone'', ''+15550100'')]\<rparr>))
     ''risk_level'' = Some (PyStr ''high'')
   \<and> response_field
     (fst (analyze_endpoint
             \<lparr>use_real_ml = False, ml_api_url = [], ml_api_key = [], local_model = None\<rparr>
             \<lparr>ml = \<lparr>audio_opens = True, http = TransportError,
                      inference_result = InferenceRaised,
                      draws = \<lparr>choice_draw = 1, unit_draw = 0\<rparr>\<rparr>,
               secure_filename = id, uuid_hex = ''0f'', int_of_str = parse_decimal,
               save_ok = True, now_iso = ''2026-01-01T00:00:00'', supabase_connected = False,
               insert_result = InsertReturned [], sms_result = [(''success'', PyBool True)]\<rparr>
             \<lparr>audio_filename = Some ''a.wav'',
               form = [(''patient_id'', ''P1''), (''age'', ''60''), (''phone'', ''+15550100'')]\<rparr>))
     ''sms_sent'' = None
   \<and> snd (analyze_endpoint
             \<lparr>use_real_ml = False, ml_api_url = [], ml_api_key = [], local_model = None\<rparr>
             \<lparr>ml = \<lparr>audio_opens = True, http = TransportError,
                      inference_result = InferenceRaised,
                      draws = \<lparr>choice_draw = 1, unit_draw = 0\<rparr>\<rparr>,
               secure_filename = id, uuid_hex = ''0f'', int_of_str = parse_decimal,
               save_ok = True, now_iso = ''2026-01-01T00:00:00'', supabase_connected = False,
               insert_result = InsertReturned [], sms_result = [(''success'', PyBool True)]\<rparr>
             \<lparr>audio_filename = Some ''a.wav'',
               form = [(''patient_id'', ''P1''), (''age'', ''60''), (''phone'', ''+15550100'')]\<rparr>)
     = [SaveUpload ''uploads/0f_a.wav'', MockSleep]
   \<and> map_of
       (patient_context_of
          \<lparr>ml = \<lparr>audio_opens = True, http = TransportError,
                   inference_result = InferenceRaised,
                   draws = \<lparr>choice_draw = 1, unit_draw = 0\<rparr>\<rparr>,
            secure_filename = id, uuid_hex = ''0f'', int_of_str = parse_decimal,
            save_ok = True, now_iso = ''2026-01-01T00:00:00'', supabase_connected = False,
            insert_result = InsertReturned [], sms_result = [(''success'', PyBool True)]\<rparr>
          \<lparr>audio_filename = Some ''a.wav'',
            form = [(''patient_id'', ''P1''), (''age'', ''60''), (''phone'', ''+15550100'')]\<rparr>)
       ''phone'' = None
   \<and> snd (alert_and_respond
            \<lparr>ml = \<lparr>audio_opens = True, http = TransportError,
                     inference_result = InferenceRaised,
                     draws = \<lparr>choice_draw = 1, unit_draw = 0\<rparr>\<rparr>,
              secure_filename = id, uuid_hex = ''0f'', int_of_str = parse_decimal,
              save_ok = True, now_iso = ''2026-01-01T00:00:00'', supabase_connected = False,
              insert_result = InsertReturned [], sms_result = [(''success'', PyBool True)]\<rparr>
            [(''prediction'', PyStr ''abnormal''), (''risk_level'', PyStr ''high''),
             (''recommendation'', PyStr ''Urgent consultation with cardiologist recommended.''),
             (''ml_source'', PyStr ''mock'')]
            [(''patient_id'', PyStr ''P1''), (''age'', PyInt 60),
             (''phone'', PyStr ''+15550100'')]
            [(''success'', PyBool True), (''id'', PyStr ''mock_id'')]
            ''0f_a.wav'')
     = [SmsAlert (PyStr ''+15550100'')
          (PyStr ''Urgent consultation with cardiologist recommended.'')]"
proof -
  let ?c = "\<lparr>use_real_ml = False, ml_api_url = [], ml_api_key = [], local_model = None\<rparr>"
  let ?env = "\<lparr>ml = \<lparr>audio_opens = True, http = TransportError,
                      inference_result = InferenceRaised,
                      draws = \<lparr>choice_draw = 1, unit_draw = 0\<rparr>\<rparr>,
               secure_filename = id, uuid_hex = ''0f'', int_of_str = parse_decimal,
               save_ok = True, now_iso = ''2026-01-01T00:00:00'', supabase_connected = False,
               insert_result = InsertReturned [], sms_result = [(''success'', PyBool True)]\<rparr>"
  let ?req = "\<lparr>audio_filename = Some ''a.wav'',
               form = [(''patient_id'', ''P1''), (''age'', ''60''), (''phone'', ''+15550100'')]\<rparr>"
  let ?conf = "PyFloat (py_round 3 (uniform (6 / 10) (95 / 100) \<lparr>choice_draw = 1, unit_draw = 0\<rparr>))"
  have al: "allowed_file ''a.wav''"
    by (simp add: allowed_file_def rsplit_last_def ALLOWED_EXTENSIONS_def lower_def
        lower_char_def upper_letters_def lower_letters_def)
  have ep: "analyze_endpoint ?c ?env ?req =
      (Ok200 (PyDict
         (AList.update ''audio_file'' (PyStr ''0f_a.wav'')
            (AList.update ''screening_id'' (PyStr ''mock_id'')
               [(''prediction'', PyStr ''abnormal''),
                (''confidence'', ?conf),
                (''risk_level'', PyStr ''high''),
                (''recommendation'', PyStr ''Urgent consultation with cardiologist recommended.''),
                (''ml_source'', PyStr ''mock''),
                (''note'', PyStr ''Using mock analysis - ML model not available'')]))),
       [SaveUpload ''uploads/0f_a.wav'', MockSleep])"
    by (simp add: analyze_endpoint_def al unique_filename_of_def audio_path_of_def
        analyze_heart_sound_def mock_analysis_def mock_predictions_def mock_risk_level_of_def
        mock_risk_mapping_def mock_recommendations_def str_get_def save_screening_result_def
        alert_and_respond_without_phone [OF patient_context_no_phone] dict_get_def Let_def)
  have 1: "response_field (fst (analyze_endpoint ?c ?env ?req)) ''risk_level''
           = Some (PyStr ''high'')"
    unfolding ep by simp
  have 2: "response_field (fst (analyze_endpoint ?c ?env ?req)) ''sms_sent'' = None"
    unfolding ep by simp
  have 3: "snd (analyze_endpoint ?c ?env ?req) = [SaveUpload ''uploads/0f_a.wav'', MockSleep]"
    unfolding ep by simp
  have 4: "map_of (patient_context_of ?env ?req) ''phone'' = None"
    by (rule patient_context_no_phone)
  have 5: "snd (alert_and_respond ?env
            [(''prediction'', PyStr ''abnormal''), (''risk_level'', PyStr ''high''),
             (''recommendation'', PyStr ''Urgent consultation with cardiologist recommended.''),
             (''ml_source'', PyStr ''mock'')]
            [(''patient_id'', PyStr ''P1''), (''age'', PyInt 60),
             (''phone'', PyStr ''+15550100'')]
            [(''success'', PyBool True), (''id'', PyStr ''mock_id'')]
            ''0f_a.wav'')
     = [SmsAlert (PyStr ''+15550100'')
          (PyStr ''Urgent consultation with cardiologist recommended.'')]"
    by (simp add: alert_and_respond_def dict_get_def)
  show ?thesis
    by (intro conjI; (rule 1 2 3 4 5))
qed

lemma analyze_heart_sound_no_sms:
  "SmsAlert a b \<notin> set (snd (analyze_heart_sound c env p ctx))"
  by (auto simp: analyze_heart_sound_def call_external_ml_api_def mock_fallback_result
      mock_analysis_events split_def Let_def
      split: option.splits sum.splits http_outcome.splits if_splits)

lemma save_screening_result_no_sms:
  "SmsAlert a b \<notin> set (snd (save_screening_result env sd))"
  by (auto simp: save_screening_result_def Let_def split: insert_outcome.splits list.splits)

lemma analyze_endpoint_no_sms:
  "SmsAlert a b \<notin> set (snd (analyze_endpoint c env req))"
  using analyze_heart_sound_no_sms save_screening_result_no_sms
  by (auto simp: analyze_endpoint_def Let_def split_def
      alert_and_respond_without_phone [OF patient_context_no_phone]
      split: option.splits sum.splits pyval.splits if_splits)

lemma analyze_endpoint_sms_sent_from_classifier:
  assumes "response_field (fst (analyze_endpoint c env req)) ''sms_sent'' = Some v"
  shows "\<exists>f d. audio_filename req = Some f
           \<and> fst (analyze_heart_sound c (ml env) (Some (audio_path_of env f))
                    (Some (patient_context_of env req))) = Inr (PyDict d)
           \<and> map_of d ''sms_sent'' = Some v"
  using assms
  by (auto simp: analyze_endpoint_def Let_def split_def update_conv'
      alert_and_respond_without_phone [OF patient_context_no_phone]
      split: option.splits sum.splits pyval.splits if_splits)

lemma local_or_mock_no_sms_sent:
  assumes "\<not> (use_real_ml c \<and> ml_api_url c \<noteq> [])"
    and "fst (analyze_heart_sound c env p ctx) = Inr (PyDict d)"
  shows "map_of d ''sms_sent'' = None"
proof (cases "local_model c")
  case None
  then have "d = fst (mock_analysis (draws env) ctx)"
    using assms by (auto simp: analyze_heart_sound_def split_def Let_def)
  then show ?thesis by (simp add: mock_analysis_def Let_def)
next
  case (Some m)
  show ?thesis
  proof (cases "predict_from_audio m (inference_result env) (draws env) p")
    case (Inl e)
    then show ?thesis using assms Some by (auto simp: analyze_heart_sound_def)
  next
    case (Inr result)
    then have ne: "result \<noteq> []" by (rule predict_from_audio_nonempty)
    then have "format_local_ml_result c result ctx = Inr d"
      using assms Some Inr by (auto simp: analyze_heart_sound_def split: sum.splits)
    then show ?thesis using format_local_ml_result_fields by fastforce
  qed
qed

text \<open>
  Claim C10, as the code has it. Whatever form fields are submitted, the patient context
  built by the analyze endpoint has exactly the keys patient\_id, name, age, gender,
  doctor\_id and symptoms, and no phone; no alert is ever dispatched from this endpoint;
  and the endpoint never sets \<open>sms_sent\<close>: when the response carries that key, the
  classifier's own result carried it with the same value, which does not happen when the
  result comes from the local model or the mock.
\<close>

theorem analyze_endpoint_never_alerts:
  "map fst (patient_context_of env req)
     = [''patient_id'', ''name'', ''age'', ''gender'', ''doctor_id'', ''symptoms'']
   \<and> map_of (patient_context_of env req) ''phone'' = None
   \<and> (\<forall>phone msg. SmsAlert phone msg \<notin> set (snd (analyze_endpoint c env req)))
   \<and> (response_field (fst (analyze_endpoint c env req)) ''sms_sent'' = Some v \<longrightarrow>
        (\<exists>f d. audio_filename req = Some f
           \<and> fst (analyze_heart_sound c (ml env) (Some (audio_path_of env f))
                    (Some (patient_context_of env req))) = Inr (PyDict d)
           \<and> map_of d ''sms_sent'' = Some v))
   \<and> (\<not> (use_real_ml c \<and> ml_api_url c \<noteq> []) \<longrightarrow>
        response_field (fst (analyze_endpoint c env req)) ''sms_sent'' = None)"
proof -
  have keys: "map fst (patient_context_of env req)
     = [''patient_id'', ''name'', ''age'', ''gender'', ''doctor_id'', ''symptoms'']"
    by (simp add: patient_context_of_def)
  have none: "response_field (fst (analyze_endpoint c env req)) ''sms_sent'' = None"
    if nr: "\<not> (use_real_ml c \<and> ml_api_url c \<noteq> [])"
  proof (cases "response_field (fst (analyze_endpoint c env req)) ''sms_sent''")
    case None
    then show ?thesis .
  next
    case (Some w)
    then obtain f d where
      "fst (analyze_heart_sound c (ml env) (Some (audio_path_of env f))
              (Some (patient_context_of env req))) = Inr (PyDict d)"
      and w: "map_of d ''sms_sent'' = Some w"
      using analyze_endpoint_sms_sent_from_classifier by blast
    then have "map_of d ''sms_sent'' = None"
      using local_or_mock_no_sms_sent [OF nr] by blast
    then show ?thesis using w by simp
  qed
  show ?thesis
    by (intro conjI allI impI;
        (rule keys patient_context_no_phone analyze_endpoint_no_sms none
           analyze_endpoint_sms_sent_from_classifier, assumption?))
qed

theorem analyze_endpoint_never_alerts_witness:
  "response_field
     (fst (analyze_endpoint example_client example_env
             \<lparr>audio_filename = Some ''a.wav'',
               form = [(''patient_id'', ''P1''), (''phone'', ''+15550100'')]\<rparr>))
     ''sms_sent'' = None
   \<and> map_of (patient_context_of example_env
               \<lparr>audio_filename = Some ''a.wav'',
                 form = [(''patient_id'', ''P1''), (''phone'', ''+15550100'')]\<rparr>)
        ''phone'' = None"
proof -
  have "\<not> (use_real_ml example_client \<and> ml_api_url example_client \<noteq> [])"
    by (simp add: example_client_def)
  then show ?thesis
    using analyze_endpoint_never_alerts [where c = example_client and env = example_env
        and req = "\<lparr>audio_filename = Some ''a.wav'',
               form = [(''patient_id'', ''P1''), (''phone'', ''+15550100'')]\<rparr>"]
    by blast
qed

text \<open>
  Claim C10 as stated says that the response of the analyze endpoint never carries an
  \<open>sms_sent\<close> flag. A body returned by the remote classifier is passed through as it is:
  when it contains that key, so does the response.
\<close>

theorem analyze_response_can_carry_sms_sent:
  "response_field
     (fst (analyze_endpoint
             \<lparr>use_real_ml = True, ml_api_url = ''http://ml.example/predict'', ml_api_key = [],
               local_model = None\<rparr>
             \<lparr>ml = \<lparr>audio_opens = True,
                      http = HttpResponse 200
                               (Some (PyDict [(''prediction'', PyStr ''abnormal''),
                                              (''confidence'', PyFloat (9 / 10)),
                                              (''risk_level'', PyStr ''high''),
                                              (''sms_sent'', PyBool True)])),
                      inference_result = InferenceRaised,
                      draws = \<lparr>choice_draw = 0, unit_draw = 0\<rparr>\<rparr>,
               secure_filename = id, uuid_hex = ''0f'', int_of_str = parse_decimal,
               save_ok = True, now_iso = ''2026-01-01T00:00:00'', supabase_connected = False,
               insert_result = InsertReturned [], sms_result = [(''success'', PyBool True)]\<rparr>
             \<lparr>audio_filename = Some ''a.wav'',
               form = [(''patient_id'', ''P1''), (''phone'', ''+15550100'')]\<rparr>))
     ''sms_sent'' = Some (PyBool True)"
proof -
  have al: "allowed_file ''a.wav''"
    by (simp add: allowed_file_def rsplit_last_def ALLOWED_EXTENSIONS_def lower_def
        lower_char_def upper_letters_def lower_letters_def)
  show ?thesis
    by (simp add: analyze_endpoint_def al unique_filename_of_def audio_path_of_def
        analyze_heart_sound_def call_external_ml_api_def save_screening_result_def
        alert_and_respond_without_phone [OF patient_context_no_phone] dict_get_def Let_def)
qed

end
